theory Spec2Isabelle
  imports Main "HOL-Library.AList"
begin

section \<open>Strings\<close>

text \<open>
  A TypeScript string is a sequence of UTF-16 code units. The model is a \<^typ>\<open>string\<close>
  whose characters are read as the code units below 256 (ASCII and Latin-1), so
  \<^const>\<open>length\<close> is the \<^verbatim>\<open>.length\<close> of the source. The character classes below
  are those of the source's regular expressions without the unicode flag.
\<close>

definition is_upper :: "char \<Rightarrow> bool" where
  \<comment> \<open>the code units that \<^verbatim>\<open>toLowerCase\<close> changes: A-Z, and Latin-1 capitals except the
      multiplication sign\<close>
  "is_upper c =
     (let n = (of_char c :: nat)
      in (65 \<le> n \<and> n \<le> 90) \<or> (192 \<le> n \<and> n \<le> 222 \<and> n \<noteq> 215))"

definition toLowerChar :: "char \<Rightarrow> char" where
  "toLowerChar c = (if is_upper c then char_of (of_char c + (32::nat)) else c)"

definition toLowerCase :: "string \<Rightarrow> string" where
  "toLowerCase s = map toLowerChar s"

definition endsWith :: "string \<Rightarrow> string \<Rightarrow> bool" where
  \<comment> \<open>\<^verbatim>\<open>s.endsWith(p)\<close>, and a match of the pattern \<^verbatim>\<open>/p$/\<close> for a literal p\<close>
  "endsWith s p = (length p \<le> length s \<and> drop (length s - length p) s = p)"

definition is_word_char :: "char \<Rightarrow> bool" where
  \<comment> \<open>the class \<^verbatim>\<open>\w\<close>\<close>
  "is_word_char c =
     (c \<in> set ''abcdefghijklmnopqrstuvwxyzABCDEFGHIJKLMNOPQRSTUVWXYZ0123456789_'')"

definition is_letter :: "char \<Rightarrow> bool" where
  \<comment> \<open>the class \<^verbatim>\<open>[a-zA-Z]\<close>\<close>
  "is_letter c = (c \<in> set ''abcdefghijklmnopqrstuvwxyzABCDEFGHIJKLMNOPQRSTUVWXYZ'')"

definition is_space :: "char \<Rightarrow> bool" where
  \<comment> \<open>the class \<^verbatim>\<open>\s\<close>, also what \<^verbatim>\<open>trim\<close> removes: tab, line feed, vertical tab,
      form feed, carriage return, space and the no-break space\<close>
  "is_space c = ((of_char c :: nat) \<in> set [9, 10, 11, 12, 13, 32, 160])"

definition trim :: "string \<Rightarrow> string" where
  "trim s = rev (dropWhile is_space (rev (dropWhile is_space s)))"

function split_runs :: "(char \<Rightarrow> bool) \<Rightarrow> string \<Rightarrow> string list" where
  \<comment> \<open>\<^verbatim>\<open>s.split(/[...]+/)\<close> for a character class P: the pieces between the maximal runs of
      P, the empty pieces at both ends included\<close>
  "split_runs P s =
     (case dropWhile (\<lambda>c. \<not> P c) s of
        [] \<Rightarrow> [s]
      | d # rest \<Rightarrow> takeWhile (\<lambda>c. \<not> P c) s # split_runs P (dropWhile P rest))"
  by pat_completeness auto
termination
proof (relation "measure (\<lambda>(P, s). length s)")
  show "wf (measure (\<lambda>(P, s). length s))" by simp
next
  fix P :: "char \<Rightarrow> bool" and s :: string and d rest
  assume a: "dropWhile (\<lambda>c. \<not> P c) s = d # rest"
  have "length (dropWhile P rest) \<le> length rest"
    by (rule length_dropWhile_le)
  also have "length rest < length (dropWhile (\<lambda>c. \<not> P c) s)"
    by (simp add: a)
  also have "\<dots> \<le> length s"
    by (rule length_dropWhile_le)
  finally show "((P, dropWhile P rest), (P, s)) \<in> measure (\<lambda>(P, s). length s)"
    by simp
qed

declare split_runs.simps [simp del]

fun split_char :: "char \<Rightarrow> string \<Rightarrow> string list" where
  \<comment> \<open>\<^verbatim>\<open>s.split(d)\<close> for a one-character string d: every occurrence separates\<close>
  "split_char d [] = [[]]"
| "split_char d (c # s) =
     (if c = d then [] # split_char d s
      else (case split_char d s of p # ps \<Rightarrow> (c # p) # ps | [] \<Rightarrow> [[c]]))"

definition join :: "string \<Rightarrow> string list \<Rightarrow> string" where
  \<comment> \<open>\<^verbatim>\<open>parts.join(sep)\<close>\<close>
  "join sep parts = (case parts of [] \<Rightarrow> [] | p # ps \<Rightarrow> p @ concat (map (\<lambda>q. sep @ q) ps))"

definition slice :: "nat \<Rightarrow> nat \<Rightarrow> 'a list \<Rightarrow> 'a list" where
  \<comment> \<open>\<^verbatim>\<open>xs.slice(i, j)\<close> for indices that are not negative\<close>
  "slice i j xs = take (j - i) (drop i xs)"

definition includes_str :: "string \<Rightarrow> string \<Rightarrow> bool" where
  \<comment> \<open>\<^verbatim>\<open>s.includes(p)\<close>: p occurs in s as a contiguous substring\<close>
  "includes_str s p = list_ex (\<lambda>i. take (length p) (drop i s) = p) [0 ..< Suc (length s)]"

section \<open>The stemmer (stemmer.ts, the last part of src/utils/featureGates.ts)\<close>

definition VOWEL :: "char \<Rightarrow> bool" where
  "VOWEL c = (c \<in> set ''aeiou'')"

definition CONSONANT :: "char \<Rightarrow> bool" where
  "CONSONANT c = (c \<in> set ''bcdfghjklmnpqrstvwxyz'')"

datatype condition = M_gt_0 | M_gt_1 | Has_vowel | S_or_t

record rule =
  pattern :: string  \<comment> \<open>the suffix p of the source's \<^verbatim>\<open>/p$/\<close>\<close>
  replacement :: string
  condition :: "condition option"

definition mk_rule :: "string \<Rightarrow> string \<Rightarrow> rule" where
  "mk_rule p r = \<lparr>pattern = p, replacement = r, condition = None\<rparr>"

definition mk_cond_rule :: "string \<Rightarrow> string \<Rightarrow> condition \<Rightarrow> rule" where
  "mk_cond_rule p r c = \<lparr>pattern = p, replacement = r, condition = Some c\<rparr>"

definition step1aRules :: "rule list" where
  "step1aRules =
     [mk_rule ''sses'' ''ss'', mk_rule ''ies'' ''i'', mk_rule ''ss'' ''ss'', mk_rule ''s'' '''']"

definition step1bRules :: "rule list" where
  "step1bRules =
     [mk_cond_rule ''eed'' ''ee'' M_gt_0,
      mk_cond_rule ''ed'' '''' Has_vowel,
      mk_cond_rule ''ing'' '''' Has_vowel]"

definition step1bPost :: "rule list" where
  "step1bPost = [mk_rule ''at'' ''ate'', mk_rule ''bl'' ''ble'', mk_rule ''iz'' ''ize'']"

definition step2Rules :: "rule list" where
  "step2Rules =
     [mk_rule ''ational'' ''ate'', mk_rule ''tional'' ''tion'', mk_rule ''enci'' ''ence'',
      mk_rule ''anci'' ''ance'', mk_rule ''izer'' ''ize'', mk_rule ''abli'' ''able'',
      mk_rule ''alli'' ''al'', mk_rule ''entli'' ''ent'', mk_rule ''eli'' ''e'',
      mk_rule ''ousli'' ''ous'', mk_rule ''ization'' ''ize'', mk_rule ''ation'' ''ate'',
      mk_rule ''ator'' ''ate'', mk_rule ''alism'' ''al'', mk_rule ''iveness'' ''ive'',
      mk_rule ''fulness'' ''ful'', mk_rule ''ousness'' ''ous'', mk_rule ''aliti'' ''al'',
      mk_rule ''iviti'' ''ive'', mk_rule ''biliti'' ''ble'']"

definition step3Rules :: "rule list" where
  "step3Rules =
     [mk_rule ''icate'' ''ic'', mk_rule ''ative'' '''', mk_rule ''alize'' ''al'',
      mk_rule ''iciti'' ''ic'', mk_rule ''ical'' ''ic'', mk_rule ''ful'' '''',
      mk_rule ''ness'' '''']"

definition step4Rules :: "rule list" where
  "step4Rules =
     [mk_rule ''al'' '''', mk_rule ''ance'' '''', mk_rule ''ence'' '''', mk_rule ''er'' '''',
      mk_rule ''ic'' '''', mk_rule ''able'' '''', mk_rule ''ible'' '''', mk_rule ''ant'' '''',
      mk_rule ''ement'' '''', mk_rule ''ment'' '''', mk_rule ''ent'' '''',
      mk_cond_rule ''ion'' '''' S_or_t,
      mk_rule ''ou'' '''', mk_rule ''ism'' '''', mk_rule ''ate'' '''', mk_rule ''iti'' '''',
      mk_rule ''ous'' '''', mk_rule ''ive'' '''', mk_rule ''ize'' '''']"

fun countVC :: "string \<Rightarrow> nat" where
  \<comment> \<open>the number of matches of the global pattern vowel-consonant, scanned left to right
      without overlap\<close>
  "countVC (a # b # rest) =
     (if VOWEL a \<and> CONSONANT b then Suc (countVC rest) else countVC (b # rest))"
| "countVC _ = 0"

definition measure_stem :: "string \<Rightarrow> nat" where
  \<comment> \<open>the source's \<^verbatim>\<open>measure\<close>\<close>
  "measure_stem word = countVC (dropWhile CONSONANT word)"

definition hasVowel :: "string \<Rightarrow> bool" where
  "hasVowel word = list_ex VOWEL word"

definition endsWithDoubleConsonant :: "string \<Rightarrow> bool" where
  "endsWithDoubleConsonant word =
     (if length word < 2 then False
      else (let l = word ! (length word - 1); secondLast = word ! (length word - 2)
            in l = secondLast \<and> CONSONANT l))"

definition cvc :: "string \<Rightarrow> bool" where
  "cvc word =
     (if length word < 3 then False
      else (let l = word ! (length word - 1);
                middle = word ! (length word - 2);
                third = word ! (length word - 3)
            in CONSONANT third \<and> VOWEL middle \<and> CONSONANT l \<and> l \<notin> set ''wxy''))"

definition strip :: "string \<Rightarrow> string \<Rightarrow> string" where
  \<comment> \<open>\<^verbatim>\<open>word.replace(/p$/, '')\<close> for a word that ends with p\<close>
  "strip word p = take (length word - length p) word"

definition shouldApply :: "rule \<Rightarrow> string \<Rightarrow> bool" where
  \<comment> \<open>the condition check of \<^verbatim>\<open>applyRules\<close>; \<^verbatim>\<open>stem\<close> is the word without the suffix\<close>
  "shouldApply r stem =
     (case condition r of
        None \<Rightarrow> True
      | Some M_gt_0 \<Rightarrow> measure_stem stem > 0
      | Some M_gt_1 \<Rightarrow> measure_stem stem > 1
      | Some Has_vowel \<Rightarrow> hasVowel stem
      | Some S_or_t \<Rightarrow> measure_stem stem > 1 \<and> (endsWith stem ''s'' \<or> endsWith stem ''t''))"

fun applyRules :: "string \<Rightarrow> rule list \<Rightarrow> string" where
  \<comment> \<open>the first rule whose pattern matches and whose condition holds is applied; a rule
      whose condition fails is skipped and the search goes on. The source's third
      parameter, the step's name, is never read.\<close>
  "applyRules word [] = word"
| "applyRules word (r # rules) =
     (if endsWith word (pattern r) \<and> shouldApply r (strip word (pattern r))
      then strip word (pattern r) @ replacement r
      else applyRules word rules)"

definition step1a :: "string \<Rightarrow> string" where
  "step1a stemmed = applyRules stemmed step1aRules"

definition step1b :: "string \<Rightarrow> string" where
  \<comment> \<open>step 1b and its post-processing\<close>
  "step1b beforeStep1b =
     (let stemmed = applyRules beforeStep1b step1bRules
      in if stemmed \<noteq> beforeStep1b \<and> length stemmed > 1 then
           (if endsWith stemmed ''at'' \<or> endsWith stemmed ''bl'' \<or> endsWith stemmed ''iz''
            then applyRules stemmed step1bPost
            else if endsWithDoubleConsonant stemmed
                    \<and> \<not> (endsWith stemmed ''l'' \<or> endsWith stemmed ''s'' \<or> endsWith stemmed ''z'')
            then butlast stemmed
            else if measure_stem stemmed = 1 \<and> cvc stemmed then stemmed @ ''e''
            else stemmed)
         else stemmed)"

definition step2 :: "string \<Rightarrow> string" where
  "step2 stemmed = (if measure_stem stemmed > 0 then applyRules stemmed step2Rules else stemmed)"

definition step3 :: "string \<Rightarrow> string" where
  "step3 stemmed = (if measure_stem stemmed > 0 then applyRules stemmed step3Rules else stemmed)"

definition step4 :: "string \<Rightarrow> string" where
  "step4 stemmed = (if measure_stem stemmed > 1 then applyRules stemmed step4Rules else stemmed)"

definition step5 :: "string \<Rightarrow> string" where
  "step5 stemmed =
     (let stemmed' =
        (if measure_stem stemmed > 1
         then (if endsWith stemmed ''e'' then butlast stemmed else stemmed)
         else if measure_stem stemmed = 1 \<and> \<not> cvc stemmed \<and> endsWith stemmed ''e''
         then butlast stemmed
         else stemmed)
      in if measure_stem stemmed' > 1 \<and> endsWithDoubleConsonant stemmed'
            \<and> endsWith stemmed' ''l''
         then butlast stemmed' else stemmed')"

definition stemWord :: "string \<Rightarrow> string" where
  "stemWord word =
     (if length word \<le> 2 then word
      else step5 (step4 (step3 (step2 (step1b (step1a (toLowerCase word)))))))"

section \<open>The tokenizer (src/utils/textAnalyzer.ts)\<close>

definition STOP_WORDS :: "string list" where
  "STOP_WORDS =
     [''a'', ''an'', ''the'',
      ''in'', ''on'', ''at'', ''by'', ''for'', ''with'', ''without'', ''to'', ''from'', ''of'',
      ''about'', ''under'', ''over'', ''through'', ''between'', ''among'', ''during'',
      ''before'', ''after'', ''above'', ''below'', ''up'', ''down'', ''into'', ''onto'',
      ''upon'', ''within'', ''against'',
      ''and'', ''or'', ''but'', ''nor'', ''so'', ''yet'', ''because'', ''although'', ''while'',
      ''since'', ''unless'', ''until'', ''if'', ''when'', ''where'', ''why'', ''how'',
      ''i'', ''you'', ''he'', ''she'', ''it'', ''we'', ''they'', ''me'', ''him'', ''her'', ''us'',
      ''them'', ''my'', ''your'', ''his'', ''her'', ''its'', ''our'', ''their'', ''mine'',
      ''yours'', ''ours'', ''this'', ''that'', ''these'', ''those'', ''who'', ''whom'', ''whose'',
      ''which'', ''what'',
      ''am'', ''is'', ''are'', ''was'', ''were'', ''be'', ''been'', ''being'',
      ''have'', ''has'', ''had'', ''do'', ''does'', ''did'', ''will'', ''would'',
      ''shall'', ''should'', ''may'', ''might'', ''can'', ''could'', ''must'',
      ''not'', ''no'', ''yes'', ''very'', ''too'', ''so'', ''just'', ''only'', ''also'',
      ''here'', ''there'', ''now'', ''then'', ''today'', ''tomorrow'', ''yesterday'',
      ''always'', ''never'', ''sometimes'', ''often'', ''usually'', ''again'',
      ''one'', ''two'', ''three'', ''four'', ''five'', ''six'', ''seven'', ''eight'', ''nine'',
      ''ten'', ''first'', ''second'', ''third'', ''last'', ''next'', ''another'', ''other'',
      ''some'', ''many'', ''few'', ''more'', ''most'', ''less'', ''all'', ''any'', ''each'',
      ''every'', ''both'', ''either'']"

definition PUNCTUATION :: "char \<Rightarrow> bool" where
  \<comment> \<open>\<^verbatim>\<open>/[^\w\s']|_/\<close>\<close>
  "PUNCTUATION c = ((\<not> is_word_char c \<and> \<not> is_space c \<and> c \<noteq> CHR 0x27) \<or> c = CHR ''_'')"

definition VALID_WORD :: "string \<Rightarrow> bool" where
  \<comment> \<open>\<^verbatim>\<open>/^[a-zA-Z][a-zA-Z']*[a-zA-Z]$|^[a-zA-Z]$/\<close>\<close>
  "VALID_WORD w =
     (case w of
        [] \<Rightarrow> False
      | [c] \<Rightarrow> is_letter c
      | c # rest \<Rightarrow> is_letter c \<and> is_letter (last rest)
                    \<and> list_all (\<lambda>x. is_letter x \<or> x = CHR 0x27) (butlast rest))"

definition CONTRACTION :: "string \<Rightarrow> bool" where
  \<comment> \<open>\<^verbatim>\<open>/^(n't|'re|'ve|'ll|'d|'s|'m)$/i\<close>\<close>
  "CONTRACTION w =
     (toLowerCase w \<in> set [[CHR ''n'', CHR 0x27, CHR ''t''], [CHR 0x27, CHR ''r'', CHR ''e''],
        [CHR 0x27, CHR ''v'', CHR ''e''], [CHR 0x27, CHR ''l'', CHR ''l''], [CHR 0x27, CHR ''d''],
        [CHR 0x27, CHR ''s''], [CHR 0x27, CHR ''m'']])"

definition HYPHENATED :: "string \<Rightarrow> bool" where
  \<comment> \<open>\<^verbatim>\<open>/^[a-zA-Z]+-[a-zA-Z]+$/\<close>\<close>
  "HYPHENATED w =
     (let a = takeWhile is_letter w; r = dropWhile is_letter w
      in a \<noteq> [] \<and> (case r of [] \<Rightarrow> False
                      | d # b \<Rightarrow> d = CHR ''-'' \<and> b \<noteq> [] \<and> list_all is_letter b))"

fun replace_crlf :: "string \<Rightarrow> string" where
  \<comment> \<open>\<^verbatim>\<open>replace(/\r\n/g, '\n')\<close>\<close>
  "replace_crlf (a # b # s) =
     (if a = CHR 0x0D \<and> b = CHR 0x0A then CHR 0x0A # replace_crlf s
      else a # replace_crlf (b # s))"
| "replace_crlf s = s"

function collapse_whitespace :: "string \<Rightarrow> string" where
  \<comment> \<open>\<^verbatim>\<open>replace(/\s+/g, ' ')\<close>\<close>
  "collapse_whitespace [] = []"
| "collapse_whitespace (c # s) =
     (if is_space c then CHR '' '' # collapse_whitespace (dropWhile is_space s)
      else c # collapse_whitespace s)"
  by pat_completeness auto
termination
  by (relation "measure length") (auto simp: length_dropWhile_le less_Suc_eq_le)

definition cleanText :: "string \<Rightarrow> string" where
  "cleanText text =
     trim (collapse_whitespace
       (map (\<lambda>c. if PUNCTUATION c then CHR '' '' else c)
         (map (\<lambda>c. if c = CHR 0x09 then CHR '' '' else c) (replace_crlf text))))"

definition cleanWord :: "string \<Rightarrow> string" where
  \<comment> \<open>a quote at the start and a quote at the end are removed, then one closing
      punctuation character, then the result is trimmed\<close>
  "cleanWord w =
     (let q = (\<lambda>c. c = CHR 0x27 \<or> c = CHR 0x22);
          w1 = (case w of c # r \<Rightarrow> if q c then r else w | [] \<Rightarrow> w);
          w2 = (if w1 \<noteq> [] \<and> q (last w1) then butlast w1 else w1);
          w3 = (if w2 \<noteq> [] \<and> last w2 \<in> set ''.,;:!?'' then butlast w2 else w2)
      in trim w3)"

definition isValidWord :: "string \<Rightarrow> int \<Rightarrow> bool \<Rightarrow> bool" where
  "isValidWord w minLength includeStopWords =
     (if int (length w) < minLength then False
      else if CONTRACTION w then False
      else if \<not> VALID_WORD w \<and> \<not> HYPHENATED w then False
      else if \<not> includeStopWords \<and> toLowerCase w \<in> set STOP_WORDS then False
      else True)"

definition splitIntoSentences :: "string \<Rightarrow> string list" where
  "splitIntoSentences text =
     filter (\<lambda>sentence. length sentence > 0)
       (map trim (split_runs (\<lambda>c. c \<in> set ''.!?'') text))"

definition getWordContext :: "string \<Rightarrow> nat \<Rightarrow> nat \<Rightarrow> string" where
  "getWordContext sentence wordIndex windowSize =
     (let ws = split_runs is_space sentence;
          start = wordIndex - windowSize;
          end' = min (length ws) (wordIndex + windowSize + 1)
      in join '' '' (slice start end' ws))"

record WordInfo =
  wi_word :: string
  wi_position :: nat
  wi_sentence :: nat
  wi_context :: string

text \<open>
  The analyzer memoises \<^verbatim>\<open>extractWords\<close> in a map from a string key to the result. The
  key is \<^verbatim>\<open>words_\<close>, the first 100 code units of the text and the three options,
  joined by underscores; the options hold no underscore, so the key determines the four
  components and the model keeps them as a tuple. A key that ends in \<^verbatim>\<open>false\<close> holds
  an array of strings and one that ends in \<^verbatim>\<open>true\<close> an array of word infos: the model
  keeps the two kinds of entry in two maps, keyed by the other three components.
\<close>

type_synonym cache_key = "string \<times> bool \<times> int"

record analyzer_cache =
  words_cache :: "cache_key \<rightharpoonup> string list"
  infos_cache :: "cache_key \<rightharpoonup> WordInfo list"

definition empty_cache :: analyzer_cache where
  "empty_cache = \<lparr>words_cache = Map.empty, infos_cache = Map.empty\<rparr>"

definition cacheKey :: "string \<Rightarrow> bool \<Rightarrow> int \<Rightarrow> cache_key" where
  "cacheKey text includeStopWords minLength = (take 100 text, includeStopWords, minLength)"

definition sentence_words :: "string \<Rightarrow> string list" where
  \<comment> \<open>\<^verbatim>\<open>sentence.split(EXTRA_WHITESPACE).filter(Boolean)\<close>\<close>
  "sentence_words sentence = filter (\<lambda>w. w \<noteq> []) (split_runs is_space sentence)"

definition tokenize :: "string \<Rightarrow> bool \<Rightarrow> int \<Rightarrow> string list" where
  \<comment> \<open>the body of \<^verbatim>\<open>extractWords\<close> below the cache lookup, without positions\<close>
  "tokenize text includeStopWords minLength =
     concat (map (\<lambda>sentence.
         map (\<lambda>w. toLowerCase (cleanWord w))
           (filter (\<lambda>w. isValidWord (cleanWord w) minLength includeStopWords)
              (sentence_words sentence)))
       (splitIntoSentences (cleanText text)))"

fun tokenize_infos :: "string list \<Rightarrow> nat \<Rightarrow> nat \<Rightarrow> bool \<Rightarrow> int \<Rightarrow> WordInfo list" where
  \<comment> \<open>the same loop with positions: the sentences left, the index of the first of them
      and the words counted before it\<close>
  "tokenize_infos [] sentenceIndex globalPosition includeStopWords minLength = []"
| "tokenize_infos (sentence # rest) sentenceIndex globalPosition includeStopWords minLength =
     (let ws = sentence_words sentence
      in map (\<lambda>(wordIndex, w).
               \<lparr>wi_word = toLowerCase (cleanWord w),
                wi_position = globalPosition + wordIndex,
                wi_sentence = sentenceIndex,
                wi_context = getWordContext sentence wordIndex 3\<rparr>)
           (filter (\<lambda>(wordIndex, w). isValidWord (cleanWord w) minLength includeStopWords)
              (zip [0 ..< length ws] ws))
         @ tokenize_infos rest (Suc sentenceIndex) (globalPosition + length ws)
             includeStopWords minLength)"

definition extractWords_strings ::
  "analyzer_cache \<Rightarrow> string \<Rightarrow> bool \<Rightarrow> int \<Rightarrow> string list \<times> analyzer_cache" where
  \<comment> \<open>\<^verbatim>\<open>extractWords\<close> with \<^verbatim>\<open>includePositions\<close> false\<close>
  "extractWords_strings cache text includeStopWords minLength =
     (let k = cacheKey text includeStopWords minLength
      in case words_cache cache k of
           Some cached \<Rightarrow> (cached, cache)
         | None \<Rightarrow>
             (let result = tokenize text includeStopWords minLength
              in (result, cache\<lparr>words_cache := (words_cache cache)(k \<mapsto> result)\<rparr>)))"

definition extractWords_infos ::
  "analyzer_cache \<Rightarrow> string \<Rightarrow> bool \<Rightarrow> int \<Rightarrow> WordInfo list \<times> analyzer_cache" where
  \<comment> \<open>\<^verbatim>\<open>extractWords\<close> with \<^verbatim>\<open>includePositions\<close> true\<close>
  "extractWords_infos cache text includeStopWords minLength =
     (let k = cacheKey text includeStopWords minLength
      in case infos_cache cache k of
           Some cached \<Rightarrow> (cached, cache)
         | None \<Rightarrow>
             (let result = tokenize_infos (splitIntoSentences (cleanText text)) 0 0
                             includeStopWords minLength
              in (result, cache\<lparr>infos_cache := (infos_cache cache)(k \<mapsto> result)\<rparr>)))"

record extract_options =
  includeStopWords :: bool
  minLength :: int
  includePositions :: bool

definition default_options :: extract_options where
  "default_options = \<lparr>includeStopWords = False, minLength = 1, includePositions = False\<rparr>"

definition extractWords ::
  "analyzer_cache \<Rightarrow> string \<Rightarrow> extract_options
     \<Rightarrow> (string list + WordInfo list) \<times> analyzer_cache" where
  "extractWords cache text options =
     (if includePositions options
      then (let (r, c) = extractWords_infos cache text (includeStopWords options)
                           (minLength options) in (Inr r, c))
      else (let (r, c) = extractWords_strings cache text (includeStopWords options)
                           (minLength options) in (Inl r, c)))"

section \<open>Word entries and the corpus\<close>

record WordEntry =
  word :: string
  frequency :: nat
  articles :: "string list"
  stemmed :: string

text \<open>
  An article of the corpus. The service closes over the constant \<^verbatim>\<open>mockArticles\<close>; the
  model takes the corpus as the parameter of that name.
\<close>

record article =
  article_id :: string
  article_title :: string
  article_content :: string
  article_category :: string

datatype error = Error string | TypeError string

definition message :: "error \<Rightarrow> string" where
  "message e = (case e of Error m \<Rightarrow> m | TypeError m \<Rightarrow> m)"

definition by_frequency_desc :: "WordEntry list \<Rightarrow> WordEntry list" where
  \<comment> \<open>\<^verbatim>\<open>.sort((a, b) => b.frequency - a.frequency)\<close>: a stable sort, highest frequency first\<close>
  "by_frequency_desc ws = sort_key (\<lambda>e. - int (frequency e)) ws"

definition set_add :: "string \<Rightarrow> string list \<Rightarrow> string list" where
  \<comment> \<open>adding to a set that iterates in insertion order\<close>
  "set_add x xs = (if x \<in> set xs then xs else xs @ [x])"

section \<open>The background worker (src/workers/frequencyAnalyzer.worker.ts)\<close>

definition worker_STOP_WORDS :: "string list" where
  "worker_STOP_WORDS =
     [''the'', ''a'', ''an'', ''and'', ''or'', ''but'', ''in'', ''on'', ''at'', ''to'', ''for'',
      ''of'', ''with'', ''by'',
      ''is'', ''are'', ''was'', ''were'', ''be'', ''been'', ''being'', ''have'', ''has'', ''had'',
      ''do'', ''does'', ''did'',
      ''will'', ''would'', ''could'', ''should'', ''may'', ''might'', ''can'', ''shall'', ''must'',
      ''i'', ''you'', ''he'', ''she'', ''it'', ''we'', ''they'', ''me'', ''him'', ''her'', ''us'',
      ''them'',
      ''my'', ''your'', ''his'', ''her'', ''its'', ''our'', ''their'', ''this'', ''that'',
      ''these'', ''those'']"

definition worker_cleanText :: "string \<Rightarrow> string" where
  "worker_cleanText text =
     trim (collapse_whitespace
       (map (\<lambda>c. if PUNCTUATION c then CHR '' '' else c) (toLowerCase text)))"

definition worker_extractWords :: "string \<Rightarrow> string list" where
  "worker_extractWords text =
     filter (\<lambda>w. length w \<ge> 2 \<and> VALID_WORD w \<and> w \<notin> set worker_STOP_WORDS)
       (map trim (split_char (CHR '' '') (worker_cleanText text)))"

record processed_article =
  articleId :: string
  words :: "string list"
  wordCount :: nat

definition undefined_receiver :: error where
  \<comment> \<open>reading a property of \<^verbatim>\<open>undefined\<close>; the text of the message is the engine's\<close>
  "undefined_receiver =
     TypeError (''Cannot read properties of undefined (reading '' @ [CHR 0x27]
                @ ''extractWords'' @ [CHR 0x27] @ '')'')"

definition processArticle :: "unit option \<Rightarrow> article \<Rightarrow> error + processed_article" where
  \<comment> \<open>a static method that calls \<^verbatim>\<open>this.extractWords\<close>: the first argument is its
      receiver, \<open>None\<close> when the method is called with \<^verbatim>\<open>this\<close> undefined\<close>
  "processArticle this a =
     (case this of
        None \<Rightarrow> Inl undefined_receiver
      | Some _ \<Rightarrow>
          (let ws = worker_extractWords (article_content a)
           in Inr \<lparr>articleId = article_id a, words = ws, wordCount = length ws\<rparr>))"

definition BATCH_SIZE :: nat where
  "BATCH_SIZE = 10"

fun map_throwing :: "('a \<Rightarrow> error + 'r) \<Rightarrow> 'a list \<Rightarrow> error + 'r list" where
  \<comment> \<open>\<^verbatim>\<open>batch.map(processor)\<close> for a processor that may throw\<close>
  "map_throwing f [] = Inr []"
| "map_throwing f (x # xs) =
     (case f x of
        Inl e \<Rightarrow> Inl e
      | Inr y \<Rightarrow> (case map_throwing f xs of Inl e \<Rightarrow> Inl e | Inr ys \<Rightarrow> Inr (y # ys)))"

datatype progress = Zero | Fraction nat nat
  \<comment> \<open>the literal 0, and \<^verbatim>\<open>(processed / totalItems) * 100\<close> kept as its two operands\<close>

function processBatches_from ::
  "('a \<Rightarrow> error + 'r) \<Rightarrow> nat \<Rightarrow> nat \<Rightarrow> 'a list \<Rightarrow> progress list \<times> (error + 'r list)" where
  \<comment> \<open>the loop of \<^verbatim>\<open>processBatches\<close>, with the items not yet sliced off: the progress
      reports made, and the results or the first exception\<close>
  "processBatches_from processor totalItems processed items =
     (if items = [] then ([], Inr [])
      else (let batch = take BATCH_SIZE items
            in case map_throwing processor batch of
                 Inl e \<Rightarrow> ([], Inl e)
               | Inr batchResults \<Rightarrow>
                   (let processed' = processed + length batch;
                        (reports, rest) = processBatches_from processor totalItems processed'
                                            (drop BATCH_SIZE items)
                    in (Fraction processed' totalItems # reports,
                        case rest of Inl e \<Rightarrow> Inl e | Inr rs \<Rightarrow> Inr (batchResults @ rs)))))"
  by pat_completeness auto
termination
  by (relation "measure (\<lambda>(processor, totalItems, processed, items). length items)")
     (auto simp: BATCH_SIZE_def)

declare processBatches_from.simps [simp del]

definition processBatches ::
  "'a list \<Rightarrow> ('a \<Rightarrow> error + 'r) \<Rightarrow> progress list \<times> (error + 'r list)" where
  "processBatches items processor = processBatches_from processor (length items) 0 items"

record frequency_data =
  data_frequency :: nat
  data_articles :: "string list"
  data_stemmed :: string

definition count_word ::
  "string \<Rightarrow> (string \<times> frequency_data) list \<Rightarrow> string \<Rightarrow> (string \<times> frequency_data) list" where
  \<comment> \<open>one step of the inner loop of \<^verbatim>\<open>analyzeArticles\<close>; the Map is an association list in
      insertion order\<close>
  "count_word aid wordFrequency w =
     (let st = stemWord w
      in case map_of wordFrequency w of
           Some entry \<Rightarrow>
             AList.update w
               (entry\<lparr>data_frequency := data_frequency entry + 1,
                      data_articles := set_add aid (data_articles entry)\<rparr>) wordFrequency
         | None \<Rightarrow>
             AList.update w
               \<lparr>data_frequency = 1, data_articles = [aid], data_stemmed = st\<rparr> wordFrequency)"

definition build_frequency_map ::
  "processed_article list \<Rightarrow> (string \<times> frequency_data) list" where
  "build_frequency_map processedArticles =
     foldl (\<lambda>wordFrequency p. foldl (count_word (articleId p)) wordFrequency (words p))
       [] processedArticles"

definition to_entries :: "(string \<times> frequency_data) list \<Rightarrow> WordEntry list" where
  "to_entries wordFrequency =
     by_frequency_desc
       (map (\<lambda>(w, d). \<lparr>word = w, frequency = data_frequency d,
                        articles = data_articles d, stemmed = data_stemmed d\<rparr>) wordFrequency)"

definition analyzeArticles_with ::
  "unit option \<Rightarrow> article list \<Rightarrow> progress list \<times> (error + WordEntry list)" where
  \<comment> \<open>\<^verbatim>\<open>analyzeArticles\<close>, for a given receiver of \<^verbatim>\<open>processArticle\<close>\<close>
  "analyzeArticles_with this arts =
     (let (reports, processedArticles) = processBatches arts (processArticle this)
      in (reports,
          case processedArticles of
            Inl e \<Rightarrow> Inl e
          | Inr ps \<Rightarrow> Inr (to_entries (build_frequency_map ps))))"

definition analyzeArticles :: "article list \<Rightarrow> progress list \<times> (error + WordEntry list)" where
  \<comment> \<open>the source passes \<^verbatim>\<open>WorkerTextProcessor.processArticle\<close> as a bare function value and
      \<^verbatim>\<open>processBatches\<close> calls it through \<^verbatim>\<open>batch.map(processor)\<close>: the method runs without
      a receiver, and class bodies are strict code, so \<^verbatim>\<open>this\<close> is undefined\<close>
  "analyzeArticles arts = analyzeArticles_with None arts"

definition optimizeWordList :: "WordEntry list \<Rightarrow> nat \<Rightarrow> WordEntry list" where
  "optimizeWordList ws maxWords =
     take maxWords (filter (\<lambda>w. frequency w > 1 \<or> length (articles w) > 1) ws)"

datatype response =
  Progress_update progress
  | Analysis_complete "WordEntry list"
  | Error_response string

definition onmessage_with :: "unit option \<Rightarrow> article list \<Rightarrow> response list" where
  \<comment> \<open>the messages the worker posts for a request of type \<^verbatim>\<open>analyze_articles\<close>\<close>
  "onmessage_with this arts =
     (let (reports, ws) = analyzeArticles_with this arts
      in Progress_update Zero # map Progress_update reports
         @ [case ws of
              Inl e \<Rightarrow> Error_response (message e)
            | Inr ws \<Rightarrow> Analysis_complete (optimizeWordList ws 1000)])"

definition onmessage :: "article list \<Rightarrow> response list" where
  "onmessage arts = onmessage_with None arts"

section \<open>The service (src/services/wordFrequencyService.ts)\<close>

definition stopWords :: "string list" where
  "stopWords =
     [''the'', ''a'', ''an'', ''and'', ''or'', ''but'', ''in'', ''on'', ''at'', ''to'', ''for'',
      ''of'', ''with'', ''by'',
      ''is'', ''are'', ''was'', ''were'', ''be'', ''been'', ''being'', ''have'', ''has'', ''had'',
      ''do'', ''does'', ''did'',
      ''will'', ''would'', ''could'', ''should'', ''may'', ''might'', ''can'', ''shall'', ''must'',
      ''i'', ''you'', ''he'', ''she'', ''it'', ''we'', ''they'', ''me'', ''him'', ''her'', ''us'',
      ''them'',
      ''my'', ''your'', ''his'', ''her'', ''its'', ''our'', ''their'', ''this'', ''that'',
      ''these'', ''those'']"

datatype mode = Intelligent | Exact

record filters =
  filter_minLength :: int
  excludeCommon :: bool
  partOfSpeech :: "string list"
  filter_articles :: "string list"

record SearchOptions =
  query :: string
  search_mode :: mode
  search_filters :: filters

record ArticleMatch =
  match_articleId :: string
  match_title :: string
  matches :: nat
  match_contexts :: "string list"

record SearchResult =
  result_word :: string
  result_frequency :: nat
  result_articles :: "ArticleMatch list"
  result_contexts :: "string list"

subsection \<open>Aggregation on the main thread\<close>

definition add_word :: "string \<Rightarrow> (string \<times> WordEntry) list \<Rightarrow> string \<Rightarrow> (string \<times> WordEntry) list" where
  \<comment> \<open>one step of the inner loop of \<^verbatim>\<open>processArticles\<close>; the Map is an association list in
      insertion order\<close>
  "add_word aid wordFrequency w =
     (let cleanWord = toLowerCase w;
          st = stemWord cleanWord
      in case map_of wordFrequency cleanWord of
           Some entry \<Rightarrow>
             AList.update cleanWord
               (entry\<lparr>frequency := frequency entry + 1,
                      articles := (if aid \<in> set (articles entry) then articles entry
                                   else articles entry @ [aid])\<rparr>) wordFrequency
         | None \<Rightarrow>
             AList.update cleanWord
               \<lparr>word = cleanWord, frequency = 1, articles = [aid], stemmed = st\<rparr> wordFrequency)"

definition add_article ::
  "(string \<times> WordEntry) list \<times> analyzer_cache \<Rightarrow> article
     \<Rightarrow> (string \<times> WordEntry) list \<times> analyzer_cache" where
  \<comment> \<open>the outer loop's body: \<^verbatim>\<open>textAnalyzer.extractWords(article.content)\<close> with the default
      options, on the shared analyzer\<close>
  "add_article st a =
     (let (ws, cache') = extractWords_strings (snd st) (article_content a) False 1
      in (foldl (add_word (article_id a)) (fst st) ws, cache'))"

definition processArticles ::
  "analyzer_cache \<Rightarrow> article list \<Rightarrow> WordEntry list \<times> analyzer_cache" where
  "processArticles cache arts =
     (let (wordFrequency, cache') = foldl add_article ([], cache) arts
      in (by_frequency_desc (map snd wordFrequency), cache'))"

subsection \<open>Waiting for the worker\<close>

datatype 'a outcome = Resolved 'a | Rejected error | Pending
  \<comment> \<open>how a promise ends; \<open>Pending\<close> is a promise that never settles\<close>

datatype event = Message response | Timeout
  \<comment> \<open>what the main thread sees after posting the job: a message of the worker, or the
      30 second timer firing\<close>

fun settle :: "bool \<Rightarrow> event list \<Rightarrow> WordEntry list outcome" where
  \<comment> \<open>the promise of \<^verbatim>\<open>processWithWorker\<close>; the flag says whether the timer is still set.
      Every message clears the timer, and only the first resolve or reject counts.\<close>
  "settle armed [] = Pending"
| "settle armed (Timeout # es) =
     (if armed then Rejected (Error ''Worker timeout'') else settle armed es)"
| "settle armed (Message (Analysis_complete d) # es) = Resolved d"
| "settle armed (Message (Error_response e) # es) = Rejected (Error e)"
| "settle armed (Message (Progress_update p) # es) = settle False es"

definition processWithWorker :: "event list \<Rightarrow> WordEntry list outcome" where
  "processWithWorker es = settle True es"

record service =
  wordCache :: "string \<rightharpoonup> WordEntry list"
  worker :: bool  \<comment> \<open>whether the constructor could create the worker\<close>
  textAnalyzer :: analyzer_cache  \<comment> \<open>the cache of the shared analyzer\<close>

definition analyzeAllArticles ::
  "article list \<Rightarrow> event list \<Rightarrow> service \<Rightarrow> WordEntry list outcome \<times> service" where
  \<comment> \<open>the events are those of the worker, read only when the worker is used\<close>
  "analyzeAllArticles mockArticles es s =
     (case wordCache s ''all_articles'' of
        Some cached \<Rightarrow> (Resolved cached, s)
      | None \<Rightarrow>
          (if worker s then
             (case processWithWorker es of
                Resolved allWords \<Rightarrow>
                  (Resolved allWords,
                   s\<lparr>wordCache := (wordCache s)(''all_articles'' \<mapsto> allWords)\<rparr>)
              | Rejected e \<Rightarrow> (Rejected (Error ''Failed to analyze word frequency''), s)
              | Pending \<Rightarrow> (Pending, s))
           else
             (let (allWords, cache') = processArticles (textAnalyzer s) mockArticles
              in (Resolved allWords,
                  s\<lparr>wordCache := (wordCache s)(''all_articles'' \<mapsto> allWords),
                    textAnalyzer := cache'\<rparr>))))"

subsection \<open>Search\<close>

function phraseMatches :: "string \<Rightarrow> string list" where
  \<comment> \<open>the matches of \<^verbatim>\<open>/"([^"]+)"/g\<close>, without their quotes\<close>
  "phraseMatches [] = []"
| "phraseMatches (c # s) =
     (if c = CHR 0x22 then
        (let run = takeWhile (\<lambda>x. x \<noteq> CHR 0x22) s;
             rest = dropWhile (\<lambda>x. x \<noteq> CHR 0x22) s
         in if run \<noteq> [] \<and> rest \<noteq> [] then run # phraseMatches (tl rest)
            else phraseMatches s)
      else phraseMatches s)"
  by pat_completeness auto
termination
proof (relation "measure length")
  show "wf (measure length)" by simp
next
  fix c :: char and s run rest
  assume r: "rest = dropWhile (\<lambda>x. x \<noteq> CHR 0x22) s"
  have "length (tl rest) \<le> length rest" by simp
  also have "\<dots> \<le> length s" unfolding r by (rule length_dropWhile_le)
  finally show "(tl rest, c # s) \<in> measure length" by simp
qed auto

definition parseSearchQuery :: "string \<Rightarrow> mode \<Rightarrow> string list" where
  "parseSearchQuery q m =
     (let phrases = phraseMatches q
      in if phrases \<noteq> [] then phrases
         else if CHR ''*'' \<in> set q then [q]
         else (let terms = filter (\<lambda>t. length t > 0) (split_runs is_space q)
               in if m = Intelligent then concat (map (\<lambda>t. [t, stemWord t]) terms)
                  else terms))"

text \<open>
  The source builds two regular expressions from a search term. The model covers the
  terms in which no character is regular-expression syntax (the wildcard marker apart,
  where the source replaces it), and answers \<open>None\<close> for the others.
\<close>

definition regex_syntax :: "char \<Rightarrow> bool" where
  "regex_syntax c = (c \<in> set (CHR 0x5C # ''^$.*+?()[]{}|''))"

definition ci_eq :: "char \<Rightarrow> char \<Rightarrow> bool" where
  \<comment> \<open>two code units that the flag \<^verbatim>\<open>i\<close> identifies\<close>
  "ci_eq a b = (toLowerChar a = toLowerChar b)"

datatype item = Lit char | AnyRun
  \<comment> \<open>a literal character, and \<^verbatim>\<open>.*\<close>\<close>

definition wildcard_regex :: "string \<Rightarrow> item list option" where
  \<comment> \<open>\<^verbatim>\<open>new RegExp(term.replace(/\*/g, '.*'), 'i')\<close>\<close>
  "wildcard_regex t =
     (if list_ex (\<lambda>c. regex_syntax c \<and> c \<noteq> CHR ''*'') t then None
      else Some (map (\<lambda>c. if c = CHR ''*'' then AnyRun else Lit c) t))"

definition line_terminator :: "char \<Rightarrow> bool" where
  "line_terminator c = (c = CHR 0x0A \<or> c = CHR 0x0D)"

fun match_here :: "item list \<Rightarrow> string \<Rightarrow> bool" where
  \<comment> \<open>the pattern matches a prefix of the string\<close>
  "match_here [] s = True"
| "match_here (Lit c # r) [] = False"
| "match_here (Lit c # r) (x # xs) = (ci_eq c x \<and> match_here r xs)"
| "match_here (AnyRun # r) [] = match_here r []"
| "match_here (AnyRun # r) (x # xs) =
     (match_here r (x # xs) \<or> (\<not> line_terminator x \<and> match_here (AnyRun # r) xs))"

definition regex_test :: "item list \<Rightarrow> string \<Rightarrow> bool" where
  \<comment> \<open>\<^verbatim>\<open>regex.test(s)\<close> for a pattern without anchors and without the flag \<^verbatim>\<open>g\<close>: a match
      may start at any index\<close>
  "regex_test p s = list_ex (\<lambda>i. match_here p (drop i s)) [0 ..< Suc (length s)]"

definition findWordMatches :: "string \<Rightarrow> WordEntry list \<Rightarrow> mode \<Rightarrow> WordEntry list option" where
  "findWordMatches t ws m =
     (if CHR ''*'' \<in> set t then
        (case wildcard_regex t of
           None \<Rightarrow> None
         | Some regex \<Rightarrow> Some (filter (\<lambda>w. regex_test regex (word w)) ws))
      else if m = Exact then Some (filter (\<lambda>w. word w = toLowerCase t) ws)
      else Some (filter (\<lambda>w. word w = toLowerCase t
                              \<or> stemmed w = stemWord (toLowerCase t)
                              \<or> includes_str (word w) (toLowerCase t)) ws))"

definition applyFilters :: "WordEntry list \<Rightarrow> filters \<Rightarrow> WordEntry list" where
  "applyFilters ws f =
     (let f1 = (if filter_minLength f > 1
                then filter (\<lambda>w. int (length (word w)) \<ge> filter_minLength f) ws else ws);
          f2 = (if excludeCommon f then filter (\<lambda>w. word w \<notin> set stopWords) f1 else f1)
      in if length (filter_articles f) > 0 then
           filter (\<lambda>w. list_ex (\<lambda>scope.
                      if scope = ''recent''
                        then list_ex (\<lambda>i. i \<in> set [''1'', ''2'', ''3'']) (articles w)
                      else if scope = ''popular'' then frequency w > 2
                      else if scope = ''bookmarked''
                        then list_ex (\<lambda>i. i \<in> set [''1'', ''4'']) (articles w)
                      else True) (filter_articles f)) f2
         else f2)"

definition word_boundary :: "string \<Rightarrow> nat \<Rightarrow> bool" where
  \<comment> \<open>\<^verbatim>\<open>\b\<close> at index i: exactly one of the characters before and after is a word character\<close>
  "word_boundary s i =
     ((0 < i \<and> i \<le> length s \<and> is_word_char (s ! (i - 1)))
        \<noteq> (i < length s \<and> is_word_char (s ! i)))"

definition bounded_match_at :: "string \<Rightarrow> string \<Rightarrow> nat \<Rightarrow> bool" where
  \<comment> \<open>the pattern \<^verbatim>\<open>\bw\b\<close> with flag \<^verbatim>\<open>i\<close>, for a literal w, matches at index i\<close>
  "bounded_match_at w s i =
     (word_boundary s i \<and> i + length w \<le> length s
      \<and> list_all2 ci_eq w (take (length w) (drop i s))
      \<and> word_boundary s (i + length w))"

definition test_global :: "string \<Rightarrow> string \<Rightarrow> nat \<Rightarrow> bool \<times> nat" where
  \<comment> \<open>\<^verbatim>\<open>regex.test(s)\<close> for a pattern with the flag \<^verbatim>\<open>g\<close>: the search starts at the
      pattern's \<^verbatim>\<open>lastIndex\<close>, which a match moves to its end and a failure resets\<close>
  "test_global w s lastIndex =
     (if lastIndex > length s then (False, 0)
      else (case find (bounded_match_at w s) [lastIndex ..< Suc (length s)] of
              None \<Rightarrow> (False, 0)
            | Some i \<Rightarrow> (True, i + length w)))"

fun matching_sentences :: "string \<Rightarrow> nat \<Rightarrow> string list \<Rightarrow> string list" where
  \<comment> \<open>the loop of \<^verbatim>\<open>extractContexts\<close>: one pattern object is tested on every sentence\<close>
  "matching_sentences w lastIndex [] = []"
| "matching_sentences w lastIndex (sentence # rest) =
     (let (found, lastIndex') = test_global w sentence lastIndex
      in (if found then [trim sentence] else []) @ matching_sentences w lastIndex' rest)"

definition extractContexts :: "string \<Rightarrow> string \<Rightarrow> string list option" where
  "extractContexts text w =
     (if list_ex regex_syntax w then None
      else Some (take 3 (matching_sentences w 0 (split_runs (\<lambda>c. c \<in> set ''.!?'') text))))"

fun article_matches ::
  "article list \<Rightarrow> string \<Rightarrow> WordEntry list \<Rightarrow> string list \<Rightarrow> ArticleMatch list option" where
  \<comment> \<open>the loop of \<^verbatim>\<open>buildSearchResult\<close> over the ids of the matched articles\<close>
  "article_matches mockArticles t ms [] = Some []"
| "article_matches mockArticles t ms (aid # aids) =
     (case find (\<lambda>a. article_id a = aid) mockArticles of
        None \<Rightarrow> article_matches mockArticles t ms aids
      | Some a \<Rightarrow>
          (case extractContexts (article_content a) t of
             None \<Rightarrow> None
           | Some cs \<Rightarrow>
               (case article_matches mockArticles t ms aids of
                  None \<Rightarrow> None
                | Some rest \<Rightarrow>
                    Some (\<lparr>match_articleId = aid, match_title = article_title a,
                           matches = sum_list (map frequency
                                       (filter (\<lambda>m. aid \<in> set (articles m)) ms)),
                           match_contexts = cs\<rparr> # rest))))"

definition buildSearchResult ::
  "article list \<Rightarrow> string \<Rightarrow> WordEntry list \<Rightarrow> SearchResult option" where
  "buildSearchResult mockArticles t ms =
     (let totalFrequency = sum_list (map frequency ms);
          articleIds = foldl (\<lambda>ids i. set_add i ids) [] (concat (map articles ms))
      in case article_matches mockArticles t ms articleIds of
           None \<Rightarrow> None
         | Some articleMatches \<Rightarrow>
             Some \<lparr>result_word = t, result_frequency = totalFrequency,
                   result_articles = articleMatches,
                   result_contexts = take 10 (concat (map match_contexts articleMatches))\<rparr>)"

fun search_terms ::
  "article list \<Rightarrow> WordEntry list \<Rightarrow> mode \<Rightarrow> filters \<Rightarrow> string list
     \<Rightarrow> SearchResult list option" where
  \<comment> \<open>the loop of \<^verbatim>\<open>searchWords\<close> over the parsed terms\<close>
  "search_terms mockArticles allWords m f [] = Some []"
| "search_terms mockArticles allWords m f (t # ts) =
     (case findWordMatches t allWords m of
        None \<Rightarrow> None
      | Some ms \<Rightarrow>
          (let filteredMatches = applyFilters ms f
           in if length filteredMatches > 0 then
                (case buildSearchResult mockArticles t filteredMatches of
                   None \<Rightarrow> None
                 | Some r \<Rightarrow> map_option ((#) r) (search_terms mockArticles allWords m f ts))
              else search_terms mockArticles allWords m f ts))"

definition searchWords ::
  "article list \<Rightarrow> event list \<Rightarrow> service \<Rightarrow> SearchOptions
     \<Rightarrow> SearchResult list outcome option \<times> service" where
  \<comment> \<open>\<open>None\<close>: a term of the query is outside the modelled regular expressions\<close>
  "searchWords mockArticles es s options =
     (if trim (query options) = [] then (Some (Rejected (Error ''Search query is required'')), s)
      else (case analyzeAllArticles mockArticles es s of
              (Resolved allWords, s') \<Rightarrow>
                (case search_terms mockArticles allWords (search_mode options)
                        (search_filters options)
                        (parseSearchQuery (query options) (search_mode options)) of
                   None \<Rightarrow> (None, s')
                 | Some results \<Rightarrow>
                     (Some (Resolved (sort_key (\<lambda>r. - int (result_frequency r)) results)), s'))
            | (Rejected e, s') \<Rightarrow> (Some (Rejected (Error ''Failed to search words'')), s')
            | (Pending, s') \<Rightarrow> (Some Pending, s')))"

subsection \<open>Enhanced stemming (stemmer.ts, the last part of src/utils/featureGates.ts)\<close>

definition IRREGULAR_VERBS :: "(string \<times> string) list" where
  "IRREGULAR_VERBS =
     [(''was'', ''be''), (''were'', ''be''), (''been'', ''be''), (''am'', ''be''),
      (''is'', ''be''), (''are'', ''be''), (''had'', ''have''), (''has'', ''have''),
      (''did'', ''do''), (''does'', ''do''), (''done'', ''do''), (''went'', ''go''),
      (''gone'', ''go''), (''came'', ''come''), (''saw'', ''see''), (''seen'', ''see''),
      (''took'', ''take''), (''taken'', ''take''), (''gave'', ''give''), (''given'', ''give''),
      (''got'', ''get''), (''gotten'', ''get''), (''made'', ''make''), (''said'', ''say''),
      (''told'', ''tell''), (''thought'', ''think''), (''brought'', ''bring''),
      (''bought'', ''buy''), (''caught'', ''catch''), (''taught'', ''teach''),
      (''found'', ''find''), (''left'', ''leave''), (''felt'', ''feel''), (''kept'', ''keep''),
      (''slept'', ''sleep''), (''met'', ''meet''), (''sent'', ''send''), (''spent'', ''spend''),
      (''built'', ''build''), (''heard'', ''hear''), (''held'', ''hold''), (''lost'', ''lose''),
      (''meant'', ''mean''), (''paid'', ''pay''), (''put'', ''put''), (''read'', ''read''),
      (''ran'', ''run''), (''sold'', ''sell''), (''set'', ''set''), (''shut'', ''shut''),
      (''spoke'', ''speak''), (''spoken'', ''speak''), (''stood'', ''stand''),
      (''stuck'', ''stick''), (''swam'', ''swim''), (''swum'', ''swim''), (''threw'', ''throw''),
      (''thrown'', ''throw''), (''understood'', ''understand''), (''woke'', ''wake''),
      (''woken'', ''wake''), (''wore'', ''wear''), (''worn'', ''wear''), (''won'', ''win''),
      (''wrote'', ''write''), (''written'', ''write'')]"

datatype stem_value = Stem string | Inherited string
  \<comment> \<open>a string, or the member of \<^verbatim>\<open>Object.prototype\<close> of that name, which is no string\<close>

definition inherited_members :: "string list" where
  \<comment> \<open>the lower-case names that every object literal inherits with a truthy value\<close>
  "inherited_members = [''constructor'', ''__proto__'']"

definition enhancedStem :: "string \<Rightarrow> stem_value" where
  \<comment> \<open>the table is an object literal, read by \<^verbatim>\<open>IRREGULAR_VERBS[lowerWord]\<close>: an own
      entry wins, then an inherited member, and all the table's values are truthy\<close>
  "enhancedStem w =
     (let lowerWord = toLowerCase w
      in case map_of IRREGULAR_VERBS lowerWord of
           Some base \<Rightarrow> Stem base
         | None \<Rightarrow> if lowerWord \<in> set inherited_members then Inherited lowerWord
                   else Stem (stemWord w))"

section \<open>Scenario data and predicates of the properties\<close>

definition all_lowercase :: "string \<Rightarrow> bool" where
  \<comment> \<open>no character that \<^verbatim>\<open>toLowerCase\<close> would change\<close>
  "all_lowercase s = list_all (\<lambda>c. \<not> is_upper c) s"

definition single_document :: "string \<Rightarrow> article list" where
  \<comment> \<open>a corpus of one document with the given content\<close>
  "single_document text =
     [\<lparr>article_id = ''1'', article_title = ''Document'', article_content = text,
       article_category = ''General''\<rparr>]"

definition scenario_A_content :: string where
  "scenario_A_content = ''The quick brown fox jumps over the lazy dog. The dog barks.''"

definition scenario_A :: "article list" where
  "scenario_A = single_document scenario_A_content"

definition new_service :: "bool \<Rightarrow> service" where
  \<comment> \<open>the service after its constructor, with or without a worker\<close>
  "new_service w = \<lparr>wordCache = Map.empty, worker = w, textAnalyzer = empty_cache\<rparr>"

definition page_filters :: filters where
  \<comment> \<open>the filters the word frequency page starts with\<close>
  "page_filters =
     \<lparr>filter_minLength = 3, excludeCommon = True, partOfSpeech = [], filter_articles = []\<rparr>"


definition long_prefix :: string where
  \<comment> \<open>one hundred characters\<close>
  "long_prefix = replicate 100 (CHR ''a'')"

definition text_cat :: string where
  "text_cat = long_prefix @ '' cat''"

definition text_dog :: string where
  "text_dog = long_prefix @ '' dog''"




section \<open>Properties of the stemmer\<close>

lemma toLowerChar_not_upper: "\<not> is_upper (toLowerChar c)"
proof (cases "is_upper c")
  case False
  then show ?thesis by (simp add: toLowerChar_def)
next
  case True
  define n where "n = (of_char c :: nat)"
  have n: "(65 \<le> n \<and> n \<le> 90) \<or> (192 \<le> n \<and> n \<le> 222 \<and> n \<noteq> 215)"
    using True by (simp add: is_upper_def Let_def n_def)
  have "(of_char (char_of (n + 32)) :: nat) = n + 32"
    using n by auto
  then show ?thesis
    using True n by (auto simp: toLowerChar_def is_upper_def Let_def n_def[symmetric])
qed

lemma toLowerChar_fix: "\<not> is_upper c \<Longrightarrow> toLowerChar c = c"
  by (simp add: toLowerChar_def)

lemma toLowerChar_idem: "toLowerChar (toLowerChar c) = toLowerChar c"
  by (simp add: toLowerChar_fix toLowerChar_not_upper)

lemma all_lowercase_toLowerCase: "all_lowercase (toLowerCase s)"
  by (simp add: all_lowercase_def toLowerCase_def list_all_iff toLowerChar_not_upper)

lemma toLowerCase_fix: "all_lowercase s \<Longrightarrow> toLowerCase s = s"
  by (simp add: all_lowercase_def toLowerCase_def list_all_iff toLowerChar_fix map_idI)

lemma toLowerCase_idem: "toLowerCase (toLowerCase s) = toLowerCase s"
  by (rule toLowerCase_fix) (rule all_lowercase_toLowerCase)

lemma length_toLowerCase: "length (toLowerCase s) = length s"
  by (simp add: toLowerCase_def)

lemma all_lowercase_append: "all_lowercase (a @ b) \<longleftrightarrow> all_lowercase a \<and> all_lowercase b"
  by (simp add: all_lowercase_def)

lemma all_lowercase_take: "all_lowercase s \<Longrightarrow> all_lowercase (take n s)"
  by (auto simp: all_lowercase_def list_all_iff dest: in_set_takeD)

lemma all_lowercase_butlast: "all_lowercase s \<Longrightarrow> all_lowercase (butlast s)"
  by (auto simp: all_lowercase_def list_all_iff dest: in_set_butlastD)

lemma all_lowercase_applyRules:
  "all_lowercase w \<Longrightarrow> list_all (\<lambda>r. all_lowercase (replacement r)) rules
     \<Longrightarrow> all_lowercase (applyRules w rules)"
  by (induction rules) (auto simp: all_lowercase_append strip_def all_lowercase_take)

lemma lowercase_replacements:
  "list_all (\<lambda>r. all_lowercase (replacement r)) step1aRules"
  "list_all (\<lambda>r. all_lowercase (replacement r)) step1bRules"
  "list_all (\<lambda>r. all_lowercase (replacement r)) step1bPost"
  "list_all (\<lambda>r. all_lowercase (replacement r)) step2Rules"
  "list_all (\<lambda>r. all_lowercase (replacement r)) step3Rules"
  "list_all (\<lambda>r. all_lowercase (replacement r)) step4Rules"
  by code_simp+

lemma all_lowercase_step1a: "all_lowercase w \<Longrightarrow> all_lowercase (step1a w)"
  by (simp add: step1a_def all_lowercase_applyRules lowercase_replacements)

lemma all_lowercase_e: "all_lowercase ''e''"
  by code_simp

lemma all_lowercase_step1b: "all_lowercase w \<Longrightarrow> all_lowercase (step1b w)"
  by (simp add: step1b_def Let_def all_lowercase_applyRules lowercase_replacements
      all_lowercase_butlast all_lowercase_append all_lowercase_e)

lemma all_lowercase_step2: "all_lowercase w \<Longrightarrow> all_lowercase (step2 w)"
  by (simp add: step2_def all_lowercase_applyRules lowercase_replacements)

lemma all_lowercase_step3: "all_lowercase w \<Longrightarrow> all_lowercase (step3 w)"
  by (simp add: step3_def all_lowercase_applyRules lowercase_replacements)

lemma all_lowercase_step4: "all_lowercase w \<Longrightarrow> all_lowercase (step4 w)"
  by (simp add: step4_def all_lowercase_applyRules lowercase_replacements)

lemma all_lowercase_step5: "all_lowercase w \<Longrightarrow> all_lowercase (step5 w)"
  by (simp add: step5_def Let_def all_lowercase_butlast)

text \<open>
  C4. The stemmer maps the classic reference vectors as specified: caresses to caress,
  ponies to poni, ties to ti and agreed to agre.
\<close>

theorem stemWord_classic_vectors:
  "stemWord ''caresses'' = ''caress'' \<and> stemWord ''ponies'' = ''poni''
   \<and> stemWord ''ties'' = ''ti'' \<and> stemWord ''agreed'' = ''agre''"
  by code_simp

text \<open>
  C10. A word of at most two characters is returned verbatim, in its original case. A
  longer word is lowercased before any rule runs, so its stem is the stem of its
  lower-case form and holds no upper-case character. In particular AB stays AB.
\<close>

theorem stemWord_length_guard:
  "(length w \<le> 2 \<longrightarrow> stemWord w = w)
   \<and> (2 < length w \<longrightarrow> stemWord w = stemWord (toLowerCase w) \<and> all_lowercase (stemWord w))
   \<and> stemWord ''AB'' = ''AB''"
proof (intro conjI impI)
  assume "length w \<le> 2"
  then show "stemWord w = w" by (simp add: stemWord_def)
next
  assume "2 < length w"
  then show "stemWord w = stemWord (toLowerCase w)"
    by (simp add: stemWord_def length_toLowerCase toLowerCase_idem)
next
  assume "2 < length w"
  then show "all_lowercase (stemWord w)"
    by (simp add: stemWord_def all_lowercase_toLowerCase all_lowercase_step1a
        all_lowercase_step1b all_lowercase_step2 all_lowercase_step3 all_lowercase_step4
        all_lowercase_step5)
next
  show "stemWord ''AB'' = ''AB''" by (simp add: stemWord_def)
qed

theorem stemWord_length_guard_witness:
  "length ''AB'' \<le> 2 \<and> stemWord ''AB'' = ''AB''
   \<and> 2 < length ''JUMPS'' \<and> stemWord ''JUMPS'' = ''jump'' \<and> stemWord ''jumps'' = ''jump''
   \<and> all_lowercase ''jump'' \<and> \<not> all_lowercase ''JUMPS''"
proof -
  have a: "stemWord ''JUMPS'' = ''jump''" by code_simp
  have b: "toLowerCase ''JUMPS'' = ''jumps''" by code_simp
  have c: "\<not> all_lowercase ''JUMPS''" by code_simp
  have g: "2 < length ''JUMPS''" by simp
  have t1: "stemWord ''JUMPS'' = stemWord (toLowerCase ''JUMPS'')"
    using stemWord_length_guard [of "''JUMPS''"] g by blast
  have t2: "all_lowercase (stemWord ''JUMPS'')"
    using stemWord_length_guard [of "''JUMPS''"] g by blast
  have d: "stemWord ''jumps'' = ''jump'' \<and> all_lowercase ''jump''"
    using t1 t2 unfolding a b by auto
  show ?thesis
    using stemWord_length_guard [of "''AB''"] a c d by simp
qed

section \<open>Properties of the tokenizer\<close>

text \<open>
  C5. The claim: \<^verbatim>\<open>extractWords\<close> is a pure function, its result depends only on its
  arguments, whatever was processed before. The code memoises on the first 100 characters
  of the text: after a call on one text, a call on another text with the same first 100
  characters returns the first text's tokens. Evaluated here on two such texts.
\<close>

theorem extractWords_returns_other_texts_tokens:
  "fst (extractWords empty_cache text_dog default_options) = Inl [long_prefix, ''dog'']
   \<and> fst (extractWords (snd (extractWords empty_cache text_cat default_options))
            text_dog default_options) = Inl [long_prefix, ''cat'']"
  by code_simp

section \<open>Properties of the aggregation\<close>

text \<open>
  Sorting keeps the total of the frequencies, and every token that the aggregation loop
  of the main thread is given adds one to it.
\<close>

lemma sum_list_insort_key:
  "sum_list (map g (insort_key f x xs)) = g x + sum_list (map g xs)"
  for g :: "'a \<Rightarrow> nat"
  by (induction xs) auto

lemma sum_list_sort_key:
  "sum_list (map g (sort_key f xs)) = sum_list (map g xs)"
  for g :: "'a \<Rightarrow> nat"
  by (induction xs) (auto simp: sum_list_insort_key)

lemma sum_frequency_sorted:
  "sum_list (map frequency (by_frequency_desc ws)) = sum_list (map frequency ws)"
  by (simp add: by_frequency_desc_def sum_list_sort_key)

lemma sum_update_present:
  "map_of al k = Some v \<Longrightarrow>
     sum_list (map (\<lambda>p. g (snd p)) (AList.update k v' al)) + g v
       = sum_list (map (\<lambda>p. g (snd p)) al) + g v'"
  for g :: "'b \<Rightarrow> nat"
  by (induction al) (auto split: if_splits)

lemma sum_update_absent:
  "map_of al k = None \<Longrightarrow>
     sum_list (map (\<lambda>p. g (snd p)) (AList.update k v' al))
       = sum_list (map (\<lambda>p. g (snd p)) al) + g v'"
  for g :: "'b \<Rightarrow> nat"
  by (induction al) (auto split: if_splits)

lemma sum_add_word:
  "sum_list (map (\<lambda>p. frequency (snd p)) (add_word aid al w))
     = Suc (sum_list (map (\<lambda>p. frequency (snd p)) al))"
proof (cases "map_of al (toLowerCase w)")
  case None
  then show ?thesis
    by (simp add: add_word_def Let_def sum_update_absent [where g = frequency])
next
  case (Some e)
  define e' where "e' = e\<lparr>frequency := frequency e + 1,
      articles := (if aid \<in> set (articles e) then articles e else articles e @ [aid])\<rparr>"
  have fe: "frequency e' = Suc (frequency e)" by (simp add: e'_def)
  have "sum_list (map (\<lambda>p. frequency (snd p)) (AList.update (toLowerCase w) e' al)) + frequency e
          = sum_list (map (\<lambda>p. frequency (snd p)) al) + frequency e'"
    by (rule sum_update_present [OF Some, where g = frequency])
  then have "sum_list (map (\<lambda>p. frequency (snd p)) (AList.update (toLowerCase w) e' al))
          = Suc (sum_list (map (\<lambda>p. frequency (snd p)) al))"
    by (simp add: fe)
  moreover have "add_word aid al w = AList.update (toLowerCase w) e' al"
    by (simp add: add_word_def Let_def Some e'_def)
  ultimately show ?thesis by simp
qed

lemma sum_foldl_add_word:
  "sum_list (map (\<lambda>p. frequency (snd p)) (foldl (add_word aid) al ws))
     = sum_list (map (\<lambda>p. frequency (snd p)) al) + length ws"
  by (induction ws arbitrary: al) (auto simp: sum_add_word)

lemma map_throwing_append:
  "map_throwing f (xs @ ys) =
     (case map_throwing f xs of
        Inl e \<Rightarrow> Inl e
      | Inr rs \<Rightarrow> (case map_throwing f ys of Inl e \<Rightarrow> Inl e | Inr qs \<Rightarrow> Inr (rs @ qs)))"
  by (induction xs) (auto split: sum.splits)

lemma processBatches_from_results:
  "snd (processBatches_from f t n xs) = map_throwing f xs"
proof (induction f t n xs rule: processBatches_from.induct)
  case (1 f t n xs)
  show ?case
  proof (cases "xs = []")
    case True
    then show ?thesis by (subst processBatches_from.simps) simp
  next
    case False
    have split: "map_throwing f xs =
        (case map_throwing f (take BATCH_SIZE xs) of
           Inl e \<Rightarrow> Inl e
         | Inr rs \<Rightarrow> (case map_throwing f (drop BATCH_SIZE xs) of
                        Inl e \<Rightarrow> Inl e | Inr qs \<Rightarrow> Inr (rs @ qs)))"
      using map_throwing_append [of f "take BATCH_SIZE xs" "drop BATCH_SIZE xs"] by simp
    show ?thesis
    proof (cases "map_throwing f (take BATCH_SIZE xs)")
      case (Inl e)
      then show ?thesis
        using False split by (subst processBatches_from.simps) simp
    next
      case (Inr rs)
      from 1 [OF False refl Inr refl]
      have ih: "snd (processBatches_from f t (n + length (take BATCH_SIZE xs))
                  (drop BATCH_SIZE xs)) = map_throwing f (drop BATCH_SIZE xs)" .
      show ?thesis
        using False split ih Inr
        by (subst processBatches_from.simps) (simp add: Let_def split_beta)
    qed
  qed
qed

text \<open>
  As the source calls it, \<^verbatim>\<open>processArticle\<close> has no receiver: the worker's aggregation
  throws on every corpus that is not empty.
\<close>

lemma analyzeArticles_throws:
  "arts \<noteq> [] \<Longrightarrow> snd (analyzeArticles arts) = Inl undefined_receiver"
proof -
  assume "arts \<noteq> []"
  then obtain a rest where "arts = a # rest" by (cases arts) auto
  then have "map_throwing (processArticle None) arts = Inl undefined_receiver"
    by (simp add: processArticle_def)
  then show ?thesis
    by (simp add: analyzeArticles_def analyzeArticles_with_def processBatches_def
        processBatches_from_results split_beta)
qed

lemma onmessage_nonempty:
  assumes "arts \<noteq> []"
  shows "onmessage arts = [Progress_update Zero, Error_response (message undefined_receiver)]"
proof -
  from assms obtain a rest where arts: "arts = a # rest" by (cases arts) auto
  have "map_throwing (processArticle None) (take BATCH_SIZE arts) = Inl undefined_receiver"
    by (simp add: arts BATCH_SIZE_def processArticle_def)
  then have "processBatches arts (processArticle None) = ([], Inl undefined_receiver)"
    using assms unfolding processBatches_def
    by (subst processBatches_from.simps) simp
  then show ?thesis
    by (simp add: onmessage_def onmessage_with_def analyzeArticles_with_def)
qed

lemma worker_path_rejects:
  assumes "arts \<noteq> []"
  shows "fst (analyzeAllArticles arts (map Message (onmessage arts)) (new_service True))
           = Rejected (Error ''Failed to analyze word frequency'')"
  by (simp add: onmessage_nonempty [OF assms] analyzeAllArticles_def new_service_def
      processWithWorker_def)

lemma set_update_subset: "set (AList.update k v al) \<subseteq> insert (k, v) (set al)"
  by (induction al) auto

lemma add_word_stemmed:
  assumes "\<forall>p \<in> set al. stemmed (snd p) = stemWord (word (snd p))"
  shows "\<forall>p \<in> set (add_word aid al w). stemmed (snd p) = stemWord (word (snd p))"
proof (cases "map_of al (toLowerCase w)")
  case None
  then show ?thesis
    using assms set_update_subset [of "toLowerCase w" _ al]
    by (fastforce simp: add_word_def Let_def)
next
  case (Some e)
  then have "(toLowerCase w, e) \<in> set al" by (rule map_of_SomeD)
  with assms have "stemmed e = stemWord (word e)" by fastforce
  then show ?thesis
    using assms Some set_update_subset [of "toLowerCase w" _ al]
    by (fastforce simp: add_word_def Let_def)
qed

lemma foldl_add_word_stemmed:
  "\<forall>p \<in> set al. stemmed (snd p) = stemWord (word (snd p)) \<Longrightarrow>
   \<forall>p \<in> set (foldl (add_word aid) al ws). stemmed (snd p) = stemWord (word (snd p))"
proof (induction ws arbitrary: al)
  case Nil
  then show ?case by simp
next
  case (Cons a ws)
  show ?case
    using Cons.IH [OF add_word_stemmed [OF Cons.prems]] by simp
qed

lemma foldl_add_article_stemmed:
  "\<forall>p \<in> set al. stemmed (snd p) = stemWord (word (snd p)) \<Longrightarrow>
   \<forall>p \<in> set (fst (foldl add_article (al, cache) arts)). stemmed (snd p) = stemWord (word (snd p))"
proof (induction arts arbitrary: al cache)
  case Nil
  then show ?case by simp
next
  case (Cons a arts)
  obtain ws cache' where e: "extractWords_strings cache (article_content a) False 1 = (ws, cache')"
    by (cases "extractWords_strings cache (article_content a) False 1")
  have step: "add_article (al, cache) a = (foldl (add_word (article_id a)) al ws, cache')"
    by (simp add: add_article_def e)
  show ?case
    using Cons.IH [OF foldl_add_word_stemmed [OF Cons.prems], of "article_id a" ws cache']
    by (simp add: step)
qed

lemma set_by_frequency_desc: "set (by_frequency_desc ws) = set ws"
  by (simp add: by_frequency_desc_def)

lemma processArticles_stemmed:
  "\<forall>e \<in> set (fst (processArticles cache arts)). stemmed e = stemWord (word e)"
proof -
  obtain al cache' where f: "foldl add_article ([], cache) arts = (al, cache')"
    by (cases "foldl add_article ([], cache) arts")
  have "\<forall>p \<in> set al. stemmed (snd p) = stemWord (word (snd p))"
    using foldl_add_article_stemmed [of "[]" cache arts] by (simp add: f)
  then show ?thesis
    by (auto simp: processArticles_def f set_by_frequency_desc)
qed

lemma count_word_stemmed:
  assumes "\<forall>p \<in> set al. data_stemmed (snd p) = stemWord (fst p)"
  shows "\<forall>p \<in> set (count_word aid al w). data_stemmed (snd p) = stemWord (fst p)"
proof (cases "map_of al w")
  case None
  then show ?thesis
    using assms set_update_subset [of w _ al]
    by (fastforce simp: count_word_def Let_def)
next
  case (Some e)
  then have "(w, e) \<in> set al" by (rule map_of_SomeD)
  with assms have "data_stemmed e = stemWord w" by fastforce
  then show ?thesis
    using assms Some set_update_subset [of w _ al]
    by (fastforce simp: count_word_def Let_def)
qed

lemma foldl_count_word_stemmed:
  "\<forall>p \<in> set al. data_stemmed (snd p) = stemWord (fst p) \<Longrightarrow>
   \<forall>p \<in> set (foldl (count_word aid) al ws). data_stemmed (snd p) = stemWord (fst p)"
proof (induction ws arbitrary: al)
  case Nil
  then show ?case by simp
next
  case (Cons a ws)
  show ?case
    using Cons.IH [OF count_word_stemmed [OF Cons.prems]] by simp
qed

lemma build_frequency_map_stemmed_from:
  "\<forall>p \<in> set al. data_stemmed (snd p) = stemWord (fst p) \<Longrightarrow>
   \<forall>p \<in> set (foldl (\<lambda>wf p. foldl (count_word (articleId p)) wf (words p)) al ps).
      data_stemmed (snd p) = stemWord (fst p)"
proof (induction ps arbitrary: al)
  case Nil
  then show ?case by simp
next
  case (Cons a ps)
  show ?case
    using Cons.IH [OF foldl_count_word_stemmed [OF Cons.prems]] by simp
qed

lemma to_entries_stemmed:
  "\<forall>e \<in> set (to_entries (build_frequency_map ps)). stemmed e = stemWord (word e)"
  using build_frequency_map_stemmed_from [of "[]" ps]
  by (fastforce simp: to_entries_def build_frequency_map_def set_by_frequency_desc)


text \<open>
  C7, as stated: the stemmed field of the entry of a word of the irregular-verb table is
  the table's base form. It fails: the aggregation stems with \<^verbatim>\<open>stemWord\<close>, which does
  not read the table. The entry of went records the stem went, not go.
\<close>

theorem went_entry_is_not_go:
  "map_of IRREGULAR_VERBS ''went'' = Some ''go''
   \<and> fst (processArticles empty_cache (single_document ''went''))
       = [\<lparr>word = ''went'', frequency = 1, articles = [''1''], stemmed = ''went''\<rparr>]"
  by code_simp

text \<open>
  C7, amended: \<^verbatim>\<open>enhancedStem\<close> reads the irregular-verb table before the algorithm, so for
  every word whose lower-case form is a key of the table it returns the table's base
  form. The stemmed field of every entry, on both aggregation paths, is \<^verbatim>\<open>stemWord\<close> of
  the entry's word.
\<close>

theorem irregular_table_only_in_enhancedStem:
  "(map_of IRREGULAR_VERBS (toLowerCase w) = Some base \<longrightarrow> enhancedStem w = Stem base)
   \<and> (\<forall>e \<in> set (fst (processArticles cache arts)). stemmed e = stemWord (word e))
   \<and> (\<forall>e \<in> set (to_entries (build_frequency_map ps)). stemmed e = stemWord (word e))"
  using processArticles_stemmed to_entries_stemmed
  by (simp add: enhancedStem_def Let_def)

theorem irregular_table_only_in_enhancedStem_witness:
  "map_of IRREGULAR_VERBS (toLowerCase ''Went'') = Some ''go'' \<and> enhancedStem ''Went'' = Stem ''go''
   \<and> map word (fst (processArticles empty_cache (single_document ''went''))) = [''went'']
   \<and> map stemmed (fst (processArticles empty_cache (single_document ''went'')))
       = [stemWord ''went'']
   \<and> stemWord ''went'' = ''went''"
proof -
  have a: "map_of IRREGULAR_VERBS (toLowerCase ''Went'') = Some ''go''" by code_simp
  have b: "stemWord ''went'' = ''went''" by code_simp
  have c: "map word (fst (processArticles empty_cache (single_document ''went''))) = [''went'']"
    by code_simp
  note t = irregular_table_only_in_enhancedStem
             [of "''Went''" "''go''" empty_cache "single_document ''went''" "[]"]
  from t a have t1: "enhancedStem ''Went'' = Stem ''go''" by blast
  from t have "\<forall>e \<in> set (fst (processArticles empty_cache (single_document ''went''))).
                 stemmed e = stemWord (word e)" by blast
  then have "map stemmed (fst (processArticles empty_cache (single_document ''went'')))
       = map stemWord (map word (fst (processArticles empty_cache (single_document ''went''))))"
    by simp
  then have t2: "map stemmed (fst (processArticles empty_cache (single_document ''went'')))
       = [stemWord ''went'']"
    by (simp only: c list.map)
  from a b c t1 t2 show ?thesis by blast
qed

text \<open>
  C2. The claim: the main thread's path and the worker's path produce the same entries for
  the same documents. On Scenario A the main thread returns seven entries. The worker
  returns none: \<^verbatim>\<open>analyzeArticles\<close> hands \<^verbatim>\<open>processArticle\<close> to \<^verbatim>\<open>processBatches\<close>
  without its receiver, the call of \<^verbatim>\<open>this.extractWords\<close> throws, the worker answers
  with an error message and the analysis is rejected. Lemma \<open>worker_path_rejects\<close> shows
  the same for every corpus that is not empty.
\<close>

theorem scenario_A_worker_path_fails:
  "fst (analyzeAllArticles scenario_A [] (new_service False))
     = Resolved
         [\<lparr>word = ''dog'', frequency = 2, articles = [''1''], stemmed = ''dog''\<rparr>,
          \<lparr>word = ''quick'', frequency = 1, articles = [''1''], stemmed = ''quick''\<rparr>,
          \<lparr>word = ''brown'', frequency = 1, articles = [''1''], stemmed = ''brown''\<rparr>,
          \<lparr>word = ''fox'', frequency = 1, articles = [''1''], stemmed = ''fox''\<rparr>,
          \<lparr>word = ''jumps'', frequency = 1, articles = [''1''], stemmed = ''jump''\<rparr>,
          \<lparr>word = ''lazy'', frequency = 1, articles = [''1''], stemmed = ''lazy''\<rparr>,
          \<lparr>word = ''barks'', frequency = 1, articles = [''1''], stemmed = ''bark''\<rparr>]
   \<and> onmessage scenario_A
       = [Progress_update Zero, Error_response (message undefined_receiver)]
   \<and> fst (analyzeAllArticles scenario_A (map Message (onmessage scenario_A))
            (new_service True))
       = Rejected (Error ''Failed to analyze word frequency'')"
  by code_simp

section \<open>Properties of the search\<close>

text \<open>
  C6. For a term without the wildcard marker, every entry matched in exact mode is matched
  in intelligent mode.
\<close>

theorem exact_subset_intelligent:
  "CHR ''*'' \<notin> set t \<Longrightarrow>
     \<exists>ex intel. findWordMatches t ws Exact = Some ex
        \<and> findWordMatches t ws Intelligent = Some intel
        \<and> set ex \<subseteq> set intel"
  by (auto simp: findWordMatches_def)

theorem exact_subset_intelligent_witness:
  "CHR ''*'' \<notin> set ''jump''
   \<and> findWordMatches ''jump'' (fst (processArticles empty_cache scenario_A)) Exact = Some []
   \<and> findWordMatches ''jump'' (fst (processArticles empty_cache scenario_A)) Intelligent
       = Some [\<lparr>word = ''jumps'', frequency = 1, articles = [''1''], stemmed = ''jump''\<rparr>]
   \<and> (\<exists>ex intel.
         findWordMatches ''jump'' (fst (processArticles empty_cache scenario_A)) Exact = Some ex
         \<and> findWordMatches ''jump'' (fst (processArticles empty_cache scenario_A)) Intelligent
             = Some intel
         \<and> set ex \<subseteq> set intel)"
proof -
  have a: "CHR ''*'' \<notin> set ''jump''" by simp
  have b: "findWordMatches ''jump'' (fst (processArticles empty_cache scenario_A)) Exact = Some []"
    by code_simp
  have c: "findWordMatches ''jump'' (fst (processArticles empty_cache scenario_A)) Intelligent
       = Some [\<lparr>word = ''jumps'', frequency = 1, articles = [''1''], stemmed = ''jump''\<rparr>]"
    by code_simp
  from exact_subset_intelligent [OF a, of "fst (processArticles empty_cache scenario_A)"] a b c
  show ?thesis by blast
qed



















text \<open>
  C1. The claim: on the corpus of Scenario A the exact search for dog returns one result
  of frequency 2 with two contexts, one per sentence that holds dog. The code returns one
  result of frequency 2 with one context, on the main thread's path and also when the
  word list comes from a worker. \<^verbatim>\<open>extractContexts\<close> tests every sentence with
  one pattern object that has the flag \<^verbatim>\<open>g\<close>: the match in the first sentence leaves
  the pattern's \<^verbatim>\<open>lastIndex\<close> at 43, beyond the end of the second sentence, so the test
  of the second sentence fails although it holds dog.
\<close>

theorem scenario_B_has_one_context:
  "fst (searchWords scenario_A [] (new_service False)
          \<lparr>query = ''dog'', search_mode = Exact, search_filters = page_filters\<rparr>)
     = Some (Resolved
         [\<lparr>result_word = ''dog'', result_frequency = 2,
           result_articles =
             [\<lparr>match_articleId = ''1'', match_title = ''Document'', matches = 2,
               match_contexts = [''The quick brown fox jumps over the lazy dog'']\<rparr>],
           result_contexts = [''The quick brown fox jumps over the lazy dog'']\<rparr>])
   \<and> fst (searchWords scenario_A (map Message (onmessage_with (Some ()) scenario_A))
            (new_service True)
            \<lparr>query = ''dog'', search_mode = Exact, search_filters = page_filters\<rparr>)
       = Some (Resolved
           [\<lparr>result_word = ''dog'', result_frequency = 2,
             result_articles =
               [\<lparr>match_articleId = ''1'', match_title = ''Document'', matches = 2,
                 match_contexts = [''The quick brown fox jumps over the lazy dog'']\<rparr>],
             result_contexts = [''The quick brown fox jumps over the lazy dog'']\<rparr>])
   \<and> test_global ''dog'' ''The quick brown fox jumps over the lazy dog'' 0 = (True, 43)
   \<and> test_global ''dog'' '' The dog barks'' 43 = (False, 0)
   \<and> test_global ''dog'' '' The dog barks'' 0 = (True, 8)"
  by code_simp

section \<open>Properties of the word cache\<close>

text \<open>
  C8. When \<^verbatim>\<open>analyzeAllArticles\<close> fails, the service is as it was before the call: nothing
  is stored in the word cache and what it held is still there.
\<close>

theorem failed_analysis_keeps_cache:
  "analyzeAllArticles arts es s = (Rejected e, s') \<Longrightarrow>
     s' = s \<and> wordCache s' = wordCache s"
  by (auto simp: analyzeAllArticles_def Let_def split: option.splits if_splits outcome.splits prod.splits)

theorem failed_analysis_keeps_cache_witness:
  "fst (analyzeAllArticles scenario_A [Timeout] (new_service True))
     = Rejected (Error ''Failed to analyze word frequency'')
   \<and> snd (analyzeAllArticles scenario_A [Timeout] (new_service True)) = new_service True
   \<and> wordCache (snd (analyzeAllArticles scenario_A [Timeout] (new_service True))) ''all_articles'' = None"
proof -
  have h: "analyzeAllArticles scenario_A [Timeout] (new_service True)
             = (Rejected (Error ''Failed to analyze word frequency''),
                snd (analyzeAllArticles scenario_A [Timeout] (new_service True)))"
    by (simp add: analyzeAllArticles_def new_service_def processWithWorker_def)
  from failed_analysis_keeps_cache [OF h] h show ?thesis
    by (simp add: new_service_def)
qed

end
